theory Spec2Isabelle
  imports Main
begin

section \<open>Strings and outcomes\<close>

text \<open>
  A JavaScript string is a sequence of UTF-16 code units and \<open>length\<close> counts them. The
  model writes a string as a \<open>char list\<close>: one \<open>char\<close> per code unit, restricted to the
  code units below 256. What an \<open>async\<close> function settles to is an \<open>outcome\<close>: the value
  it resolves to, or the message of the \<open>Error\<close> it rejects with.
\<close>

datatype 'a outcome = Returned 'a | Thrown string

section \<open>The include directive (src/unnamed/part\_000)\<close>

subsection \<open>The pattern \<open>/codespin:include:([^"\s]+)/g\<close>\<close>

definition directive_prefix :: string where
  "directive_prefix = ''codespin:include:''"

text \<open>The class \<open>\s\<close> on code units below 256: TAB, LF, VT, FF, CR, space, NBSP.\<close>

definition is_white_space :: "char \<Rightarrow> bool" where
  "is_white_space c =
     (c \<in> {CHR 0x09, CHR 0x0A, CHR 0x0B, CHR 0x0C, CHR 0x0D, CHR 0x20, CHR 0xA0})"

text \<open>The class \<open>[^"\s]\<close>.\<close>

definition path_char :: "char \<Rightarrow> bool" where
  "path_char c = (c \<noteq> CHR 0x22 \<and> \<not> is_white_space c)"

text \<open>
  The pattern anchored at the head of \<open>s\<close>: the literal prefix, then the longest
  non-empty run of path characters (\<open>+\<close> is greedy). The result is the length of the match.
\<close>

definition match_at :: "string \<Rightarrow> nat option" where
  "match_at s =
     (if take (length directive_prefix) s = directive_prefix
         \<and> takeWhile path_char (drop (length directive_prefix) s) \<noteq> []
      then Some (length directive_prefix
                 + length (takeWhile path_char (drop (length directive_prefix) s)))
      else None)"

text \<open>
  The leftmost match in the text \<open>s\<close>, which begins at index \<open>i\<close> of the whole string:
  the start and the end index of the match.
\<close>

fun search :: "nat \<Rightarrow> string \<Rightarrow> (nat \<times> nat) option" where
  "search i [] = None"
| "search i (c # cs) =
     (case match_at (c # cs) of
        Some n \<Rightarrow> Some (i, i + n)
      | None \<Rightarrow> search (Suc i) cs)"

text \<open>
  \<open>RegExp.prototype.exec\<close> of a global pattern: the search starts at the pattern's
  \<open>lastIndex\<close>; past the end of the string there is no match. A match sets \<open>lastIndex\<close>
  to its end index, which is the second component of the result. The pattern object does
  not remember the string it was run on.
\<close>

definition exec :: "nat \<Rightarrow> string \<Rightarrow> (nat \<times> nat) option" where
  "exec lastIndex s =
     (if lastIndex > length s then None else search lastIndex (drop lastIndex s))"

subsection \<open>\<open>String.prototype.replace\<close> with a string pattern\<close>

text \<open>The index of the first occurrence of \<open>pat\<close> in \<open>s\<close>.\<close>

fun index_of :: "string \<Rightarrow> string \<Rightarrow> nat option" where
  "index_of pat [] = (if pat = [] then Some 0 else None)"
| "index_of pat (c # cs) =
     (if take (length pat) (c # cs) = pat then Some 0
      else map_option Suc (index_of pat cs))"

text \<open>
  The replacement text is a template: \<open>$$\<close> is a dollar sign, \<open>$&\<close> the matched text,
  \<open>$`\<close> the text before the match and \<open>$'\<close> the text after it. A string pattern has no
  capture groups, so every other \<open>$\<close> stands for itself.
\<close>

fun getSubstitution :: "string \<Rightarrow> string \<Rightarrow> string \<Rightarrow> string \<Rightarrow> string" where
  "getSubstitution matched preceding following [] = []"
| "getSubstitution matched preceding following [c] = [c]"
| "getSubstitution matched preceding following (c # d # r) =
     (if c = CHR 0x24 then
        (if d = CHR 0x24 then CHR 0x24 # getSubstitution matched preceding following r
         else if d = CHR 0x26 then matched @ getSubstitution matched preceding following r
         else if d = CHR 0x60 then preceding @ getSubstitution matched preceding following r
         else if d = CHR 0x27 then following @ getSubstitution matched preceding following r
         else c # getSubstitution matched preceding following (d # r))
      else c # getSubstitution matched preceding following (d # r))"

text \<open>Only the first occurrence is replaced; a string without one is returned as it is.\<close>

definition string_replace :: "string \<Rightarrow> string \<Rightarrow> string \<Rightarrow> string" where
  "string_replace s pat replacement =
     (case index_of pat s of
        None \<Rightarrow> s
      | Some i \<Rightarrow>
          take i s
          @ getSubstitution pat (take i s) (drop (i + length pat) s) replacement
          @ drop (i + length pat) s)"

subsection \<open>The expander\<close>

text \<open>
  What the expander calls and this file does not define: \<open>resolveProjectFilePath\<close>
  (imported from \<open>../fs/resolveProjectFilePath.js\<close>, taking the included path, the
  directory to resolve against and the message for a project without git),
  \<open>path.dirname\<close>, \<open>process.cwd()\<close> and \<open>fs.readFile\<close> with its encoding fixed to
  UTF-8. They are parameters of the model; the two that can fail give an \<open>outcome\<close>.
  The expander only reads, so the file system is the same function all along.
\<close>

record platform =
  resolveProjectFilePath :: "string \<Rightarrow> string \<Rightarrow> string \<Rightarrow> string outcome"
  dirname :: "string \<Rightarrow> string"
  cwd :: string
  readFile :: "string \<Rightarrow> string outcome"

definition missingGit :: string where
  "missingGit = ''The codespin:include directive referred to path relative to the project root (starting with a '' @ [CHR 0x27] @ ''/'' @ [CHR 0x27] @ ''). This is supported only in projects under git.''"

text \<open>
  \<open>promptFilePath ? path.dirname(promptFilePath) : process.cwd()\<close>: an undefined and an
  empty path are both falsy.
\<close>

definition origin_dir :: "platform \<Rightarrow> string option \<Rightarrow> string" where
  "origin_dir P promptFilePath =
     (case promptFilePath of
        None \<Rightarrow> cwd P
      | Some f \<Rightarrow> if f = [] then cwd P else dirname P f)"

text \<open>
  The \<open>while\<close> loop of \<open>includeDirective\<close> from the moment the pattern's \<open>lastIndex\<close>
  is \<open>lastIndex\<close> and the variable \<open>contents\<close> holds \<open>contents\<close>. Neither the loop nor
  the recursion into an included file is bounded by the source, so the model takes fuel:
  every test of the loop condition costs one unit, and the fuel that is left goes both to
  the nested call and to the rest of the loop. \<open>None\<close> says that the fuel did not
  suffice; more fuel never changes a result (\<open>expand_mono\<close> below).
\<close>

fun expand ::
  "nat \<Rightarrow> platform \<Rightarrow> string option \<Rightarrow> string \<Rightarrow> nat \<Rightarrow> string \<Rightarrow> string outcome option"
where
  "expand 0 P promptFilePath baseDir lastIndex contents = None"
| "expand (Suc n) P promptFilePath baseDir lastIndex contents =
     (case exec lastIndex contents of
        None \<Rightarrow> Some (Returned contents)
      | Some (s, e) \<Rightarrow>
          (let match0 = take (e - s) (drop s contents);
               includedPath = drop (length directive_prefix) match0
           in case resolveProjectFilePath P includedPath (origin_dir P promptFilePath)
                     missingGit of
                Thrown err \<Rightarrow> Some (Thrown err)
              | Returned fullPath \<Rightarrow>
                  (case readFile P fullPath of
                     Thrown msg \<Rightarrow>
                       Some (Thrown (''Failed to include file from path: '' @ fullPath
                                     @ ''. Error: '' @ msg))
                   | Returned includedContent \<Rightarrow>
                       (case expand n P (Some fullPath) baseDir 0 includedContent of
                          None \<Rightarrow> None
                        | Some (Thrown err) \<Rightarrow> Some (Thrown err)
                        | Some (Returned expanded) \<Rightarrow>
                            expand n P promptFilePath baseDir e
                              (string_replace contents match0 expanded)))))"

text \<open>
  \<open>includeDirective(contents, promptFilePath, baseDir = "")\<close>: the pattern object is
  created by the call, with \<open>lastIndex\<close> 0; an omitted \<open>baseDir\<close> is the empty string.
\<close>

definition includeDirective ::
  "nat \<Rightarrow> platform \<Rightarrow> string \<Rightarrow> string option \<Rightarrow> string option \<Rightarrow> string outcome option"
where
  "includeDirective fuel P contents promptFilePath baseDir =
     expand fuel P promptFilePath (case baseDir of None \<Rightarrow> [] | Some b \<Rightarrow> b) 0 contents"

subsection \<open>A small file system to run the expander on\<close>

text \<open>
  Every file sits in the directory \<open>/w\<close>, which is also the working directory; a path is
  resolved by joining it to the directory, and a file that is not listed cannot be read.
\<close>

definition flat_fs :: "(string \<times> string) list \<Rightarrow> platform" where
  "flat_fs files =
     \<lparr> resolveProjectFilePath = (\<lambda>p dir msg. Returned (dir @ ''/'' @ p)),
       dirname = (\<lambda>f. rev (drop 1 (dropWhile (\<lambda>c. c \<noteq> CHR ''/'') (rev f)))),
       cwd = ''/w'',
       readFile = (\<lambda>f. case map_of files f of
                          Some text \<Rightarrow> Returned text
                        | None \<Rightarrow> Thrown (''ENOENT: no such file or directory, open '' @ f)) \<rparr>"

section \<open>The completion client (src/src/api/openai/completion.ts)\<close>

subsection \<open>Options, results and the provider's payload\<close>

text \<open>
  Modelled from the spec: the type \<open>CompletionOptions\<close> is imported from
  \<open>../CompletionOptions.js\<close>, which is not among the sources. The spec gives the options
  as \<open>{model?, maxTokens?, debug?}\<close>; an absent field is \<open>None\<close>. The token budget is a
  JavaScript number, here an integer.
\<close>

record CompletionOptions =
  model :: "string option"
  maxTokens :: "int option"
  debug :: "bool option"

text \<open>
  Modelled from the spec: the type \<open>CompletionResult\<close> is imported from
  \<open>../CompletionResult.js\<close>, which is not among the sources. The client builds
  \<open>{ok: true, message}\<close> and \<open>{ok: false, error: {code, message}}\<close>, the spec's
  \<open>Ok {message}\<close> and \<open>Err {code, message}\<close>.
\<close>

datatype CompletionResult = Ok string | Err string string

text \<open>The type \<open>OpenAICompletionResponse\<close> that the client declares.\<close>

record api_error =
  code :: string
  error_message :: string

record chat_message =
  content :: string

record choice =
  message :: chat_message
  finish_reason :: string

record OpenAICompletionResponse =
  error :: "api_error option"
  choices :: "choice list"

subsection \<open>The request and the environment\<close>

record request_body =
  body_model :: string
  messages :: "(string \<times> string) list"
  max_tokens :: int
  temperature :: int

record request =
  url :: string
  http_method :: string
  headers :: "(string \<times> string) list"
  body :: request_body

text \<open>A response is what its \<open>json()\<close> settles to: the parsed payload, or a parse error.\<close>

record response =
  json :: "OpenAICompletionResponse outcome"

text \<open>
  The process environment and the platform: the two variables the client reads, \<open>fetch\<close>,
  and the two conversions to text that the debug output uses (a number inside a template
  literal and \<open>JSON.stringify\<close>).
\<close>

record environment =
  OPENAI_API_KEY :: "string option"
  OPENAI_COMPLETIONS_ENDPOINT :: "string option"
  fetch :: "request \<Rightarrow> response outcome"
  number_to_string :: "int \<Rightarrow> string"
  stringify :: "OpenAICompletionResponse \<Rightarrow> string"

text \<open>What the client does besides returning: lines for \<open>writeToConsole\<close>, and requests.\<close>

datatype event = WriteToConsole string | Fetch request

fun is_fetch :: "event \<Rightarrow> bool" where
  "is_fetch (Fetch r) = True"
| "is_fetch (WriteToConsole l) = False"

subsection \<open>The client\<close>

text \<open>\<open>options.model || "gpt-3.5-turbo"\<close>: an absent and an empty name are both falsy.\<close>

definition effective_model :: "CompletionOptions \<Rightarrow> string" where
  "effective_model options =
     (case model options of
        None \<Rightarrow> ''gpt-3.5-turbo''
      | Some m \<Rightarrow> if m = [] then ''gpt-3.5-turbo'' else m)"

text \<open>\<open>options.maxTokens || 4000 - prompt.length\<close>: an absent budget and 0 are both falsy.\<close>

definition effective_maxTokens :: "string \<Rightarrow> CompletionOptions \<Rightarrow> int" where
  "effective_maxTokens prompt options =
     (case maxTokens options of
        None \<Rightarrow> 4000 - int (length prompt)
      | Some k \<Rightarrow> if k = 0 then 4000 - int (length prompt) else k)"

text \<open>\<open>Boolean(options.debug)\<close>.\<close>

definition effective_debug :: "CompletionOptions \<Rightarrow> bool" where
  "effective_debug options = (debug options = Some True)"

definition default_endpoint :: string where
  "default_endpoint = ''https://api.openai.com/v1/chat/completions''"

definition the_request :: "environment \<Rightarrow> string \<Rightarrow> CompletionOptions \<Rightarrow> string \<Rightarrow> request" where
  "the_request env prompt options key =
     \<lparr> url = (case OPENAI_COMPLETIONS_ENDPOINT env of
                 None \<Rightarrow> default_endpoint
               | Some u \<Rightarrow> if u = [] then default_endpoint else u),
       http_method = ''POST'',
       headers = [(''Content-Type'', ''application/json''),
                  (''Authorization'', ''Bearer '' @ key)],
       body = \<lparr> body_model = effective_model options,
                messages = [(''user'', prompt)],
                max_tokens = effective_maxTokens prompt options,
                temperature = 0 \<rparr> \<rparr>"

text \<open>
  \<open>data.choices[0]\<close> of an empty list is \<open>undefined\<close>, and reading its \<open>finish_reason\<close>
  throws a \<open>TypeError\<close>; the message is the one of V8, the engine of Node.
\<close>

definition no_first_choice :: string where
  "no_first_choice =
     ''Cannot read properties of undefined (reading '' @ [CHR 0x27] @ ''finish_reason''
     @ [CHR 0x27] @ '')''"

text \<open>The body of the \<open>try\<close> block, entered with the credential \<open>key\<close>.\<close>

definition completion_try ::
  "environment \<Rightarrow> string \<Rightarrow> CompletionOptions \<Rightarrow> string \<Rightarrow> event list \<times> CompletionResult outcome"
where
  "completion_try env prompt options key =
     (case fetch env (the_request env prompt options key) of
        Thrown err \<Rightarrow> ([Fetch (the_request env prompt options key)], Thrown err)
      | Returned resp \<Rightarrow>
          (case json resp of
             Thrown err \<Rightarrow> ([Fetch (the_request env prompt options key)], Thrown err)
           | Returned data \<Rightarrow>
               (let events =
                      Fetch (the_request env prompt options key)
                      # (if effective_debug options
                         then [WriteToConsole ''---OPENAI RESPONSE---'',
                               WriteToConsole (stringify env data)]
                         else [])
                in case error data of
                     Some e \<Rightarrow> (events, Returned (Err (code e) (error_message e)))
                   | None \<Rightarrow>
                       (case choices data of
                          [] \<Rightarrow> (events, Thrown no_first_choice)
                        | c # cs \<Rightarrow>
                            if finish_reason c \<noteq> ''stop''
                            then (events, Returned (Err (finish_reason c) (finish_reason c)))
                            else (events, Returned (Ok (content (message c))))))))"

text \<open>
  \<open>completion(prompt, options)\<close>: the events in the order they happen, and what the
  promise settles to. The \<open>catch\<close> clause turns whatever the \<open>try\<close> block throws into a
  result; \<open>error.message || "..."\<close> replaces an empty message.
\<close>

definition completion ::
  "environment \<Rightarrow> string \<Rightarrow> CompletionOptions \<Rightarrow> event list \<times> CompletionResult outcome"
where
  "completion env prompt options =
     (let announce =
            (if effective_debug options
             then [WriteToConsole (''OPENAI: model='' @ effective_model options),
                   WriteToConsole (''OPENAI: maxTokens=''
                     @ number_to_string env (effective_maxTokens prompt options))]
             else []);
          missing =
            (announce,
             Returned (Err ''missing_api_key''
               ''OPENAI_API_KEY is not set in the environment variables.''))
      in case OPENAI_API_KEY env of
           None \<Rightarrow> missing
         | Some key \<Rightarrow>
             if key = [] then missing
             else
               (case completion_try env prompt options key of
                  (events, Thrown err) \<Rightarrow>
                    (announce @ events,
                     Returned (Err ''fetch_error''
                       (if err = [] then ''An error occurred while fetching the completion.''
                        else err)))
                | (events, Returned r) \<Rightarrow> (announce @ events, Returned r)))"

subsection \<open>An environment to run the client on\<close>

text \<open>
  The environment holds the credential \<open>key\<close> and no endpoint override; \<open>fetch\<close> is the
  function given. \<open>answering text reason\<close> is a provider that answers every request with
  one choice.
\<close>

definition test_env :: "string option \<Rightarrow> (request \<Rightarrow> response outcome) \<Rightarrow> environment" where
  "test_env key f =
     \<lparr> OPENAI_API_KEY = key, OPENAI_COMPLETIONS_ENDPOINT = None, fetch = f,
       number_to_string = (\<lambda>n. ''?''), stringify = (\<lambda>d. ''?'') \<rparr>"

definition answering :: "string \<Rightarrow> string \<Rightarrow> request \<Rightarrow> response outcome" where
  "answering text reason =
     (\<lambda>req. Returned \<lparr> json = Returned \<lparr> error = None,
        choices = [\<lparr> message = \<lparr> content = text \<rparr>, finish_reason = reason \<rparr>] \<rparr> \<rparr>)"

definition plain_options :: CompletionOptions where
  "plain_options = \<lparr> model = None, maxTokens = None, debug = None \<rparr>"

section \<open>Properties of the include directive\<close>

subsection \<open>Where the pattern matches\<close>

text \<open>
  The pattern matches at the head of a text exactly when the text begins with the literal
  prefix and one path character.
\<close>

lemma match_at_SomeD:
  assumes "match_at s = Some n"
  shows "\<exists>c post. s = directive_prefix @ c # post \<and> path_char c"
proof -
  let ?r = "drop (length directive_prefix) s"
  from assms have t: "take (length directive_prefix) s = directive_prefix"
    and w: "takeWhile path_char ?r \<noteq> []"
    by (auto simp: match_at_def split: if_splits)
  from w obtain c post where r: "?r = c # post" and "path_char c"
    by (cases ?r) (auto split: if_splits)
  have "s = take (length directive_prefix) s @ ?r" by simp
  with t r have "s = directive_prefix @ c # post" by simp
  with \<open>path_char c\<close> show ?thesis by blast
qed

lemma match_at_directive:
  "path_char c \<Longrightarrow> match_at (directive_prefix @ c # post) \<noteq> None"
  by (simp add: match_at_def)

text \<open>
  \<open>search\<close> finds no match exactly when the text has no occurrence of the prefix that is
  followed by a path character.
\<close>

lemma search_None_iff:
  "search i s = None
     \<longleftrightarrow> \<not> (\<exists>pre c post. s = pre @ directive_prefix @ c # post \<and> path_char c)"
proof (induction s arbitrary: i)
  case Nil
  show ?case by (simp add: directive_prefix_def)
next
  case (Cons x xs)
  show ?case
  proof (cases "match_at (x # xs)")
    case (Some n)
    from match_at_SomeD [OF Some] obtain c post
      where "x # xs = [] @ directive_prefix @ c # post" and "path_char c" by auto
    then have "\<exists>pre c post. x # xs = pre @ directive_prefix @ c # post \<and> path_char c"
      by blast
    with Some show ?thesis by simp
  next
    case None
    have "(\<exists>pre c post. x # xs = pre @ directive_prefix @ c # post \<and> path_char c)
            \<longleftrightarrow> (\<exists>pre c post. xs = pre @ directive_prefix @ c # post \<and> path_char c)"
      (is "?L \<longleftrightarrow> ?R")
    proof
      assume ?L
      then obtain pre c post
        where e: "x # xs = pre @ directive_prefix @ c # post" and pc: "path_char c" by blast
      show ?R
      proof (cases pre)
        case Nil
        with e pc None match_at_directive [of c post] show ?thesis by simp
      next
        case (Cons y pre')
        with e have "xs = pre' @ directive_prefix @ c # post" by simp
        with pc show ?thesis by blast
      qed
    next
      assume ?R
      then obtain pre c post
        where "xs = pre @ directive_prefix @ c # post" and pc: "path_char c" by blast
      then have "x # xs = (x # pre) @ directive_prefix @ c # post" by simp
      with pc show ?L by blast
    qed
    with None Cons.IH [of "Suc i"] show ?thesis by simp
  qed
qed

lemma exec_start: "exec 0 s = search 0 s"
  by (simp add: exec_def)

subsection \<open>The loop\<close>

lemma expand_no_match:
  "exec lastIndex contents = None
     \<Longrightarrow> expand (Suc n) P promptFilePath baseDir lastIndex contents = Some (Returned contents)"
  by simp

text \<open>The base directory is handed on to the nested calls and never read.\<close>

lemma expand_baseDir:
  "expand n P promptFilePath b1 lastIndex contents
     = expand n P promptFilePath b2 lastIndex contents"
proof (induction n arbitrary: promptFilePath lastIndex contents)
  case 0
  show ?case by simp
next
  case (Suc n)
  show ?case
    by (simp add: Suc.IH Let_def
             split: option.splits prod.splits outcome.splits)
qed

text \<open>A result reached with some fuel is the result with any larger amount.\<close>

lemma expand_mono:
  "expand n P promptFilePath baseDir lastIndex contents = Some r \<Longrightarrow> n \<le> m
     \<Longrightarrow> expand m P promptFilePath baseDir lastIndex contents = Some r"
proof (induction n arbitrary: m promptFilePath lastIndex contents r)
  case 0
  then show ?case by simp
next
  case (Suc n)
  from Suc.prems(2) obtain m' where m: "m = Suc m'" and le: "n \<le> m'"
    by (cases m) auto
  note IH = Suc.IH [OF _ le]
  show ?case
  proof (cases "exec lastIndex contents")
    case None
    with Suc.prems(1) show ?thesis by (auto simp: m)
  next
    case (Some se)
    obtain s e where se: "se = (s, e)" by (cases se)
    let ?m0 = "take (e - s) (drop s contents)"
    show ?thesis
    proof (cases "resolveProjectFilePath P (drop (length directive_prefix) ?m0)
                    (origin_dir P promptFilePath) missingGit")
      case (Thrown err)
      with Suc.prems(1) Some se show ?thesis by (auto simp: m)
    next
      case (Returned fullPath)
      note res = this
      show ?thesis
      proof (cases "readFile P fullPath")
        case (Thrown msg)
        with Suc.prems(1) Some se res show ?thesis by (auto simp: m)
      next
        case (Returned inc)
        note rd = this
        show ?thesis
        proof (cases "expand n P (Some fullPath) baseDir 0 inc")
          case None
          with Suc.prems(1) Some se res rd show ?thesis by simp
        next
          case (Some inner)
          note inner = this IH [OF this]
          show ?thesis
          proof (cases inner)
            case (Thrown err)
            with Suc.prems(1) \<open>exec lastIndex contents = Some se\<close> se res rd inner
            show ?thesis by (auto simp: m)
          next
            case (Returned expanded)
            with Suc.prems(1) \<open>exec lastIndex contents = Some se\<close> se res rd inner
            have "expand n P promptFilePath baseDir e (string_replace contents ?m0 expanded)
                    = Some r" by simp
            from IH [OF this] Returned \<open>exec lastIndex contents = Some se\<close> se res rd inner
            show ?thesis by (auto simp: m)
          qed
        qed
      qed
    qed
  qed
qed

text \<open>
  A file that cannot be read ends the call that asked for it, with an error that names
  the resolved path and the cause; an error of a nested call ends the calling one too.
\<close>

lemma expand_read_failure:
  assumes "exec lastIndex contents = Some (s, e)"
    and "resolveProjectFilePath P
           (drop (length directive_prefix) (take (e - s) (drop s contents)))
           (origin_dir P promptFilePath) missingGit = Returned fullPath"
    and "readFile P fullPath = Thrown msg"
  shows "expand (Suc n) P promptFilePath baseDir lastIndex contents
           = Some (Thrown (''Failed to include file from path: '' @ fullPath
                           @ ''. Error: '' @ msg))"
  using assms by simp

lemma expand_nested_failure:
  assumes "exec lastIndex contents = Some (s, e)"
    and "resolveProjectFilePath P
           (drop (length directive_prefix) (take (e - s) (drop s contents)))
           (origin_dir P promptFilePath) missingGit = Returned fullPath"
    and "readFile P fullPath = Returned includedContent"
    and "expand n P (Some fullPath) baseDir 0 includedContent = Some (Thrown err)"
  shows "expand (Suc n) P promptFilePath baseDir lastIndex contents = Some (Thrown err)"
  using assms by simp

subsection \<open>Texts without a directive\<close>

text \<open>
  Claim C7. A text with no occurrence of the directive, that is, with no occurrence of
  \<open>codespin:include:\<close> that is followed by a path character, comes back unchanged:
  for every platform, origin path and base directory, as soon as there is fuel for the
  one test of the loop condition.
\<close>

theorem includeDirective_identity:
  assumes "\<not> (\<exists>pre c post. contents = pre @ ''codespin:include:'' @ c # post \<and> path_char c)"
  shows "includeDirective (Suc fuel) P contents promptFilePath baseDir = Some (Returned contents)"
proof -
  have "search 0 contents = None"
    unfolding search_None_iff directive_prefix_def by (rule assms)
  then have "exec 0 contents = None" by (simp only: exec_start)
  then show ?thesis
    unfolding includeDirective_def by (rule expand_no_match)
qed

theorem includeDirective_identity_witness:
  "\<not> (\<exists>pre c post. ''Write codespin:include: now'' = pre @ ''codespin:include:'' @ c # post
        \<and> path_char c)
   \<and> includeDirective (Suc 0) (flat_fs []) ''Write codespin:include: now''
        (Some ''/w/p.md'') (Some ''out'')
     = Some (Returned ''Write codespin:include: now'')"
proof -
  have "search 0 ''Write codespin:include: now'' = None" by code_simp
  then have h: "\<not> (\<exists>pre c post. ''Write codespin:include: now''
                     = pre @ ''codespin:include:'' @ c # post \<and> path_char c)"
    unfolding search_None_iff directive_prefix_def .
  from h includeDirective_identity [OF h] show ?thesis by blast
qed

subsection \<open>The base directory\<close>

text \<open>
  Claim C9. Two calls that differ only in \<open>baseDir\<close>, given or omitted, have the same
  result, whatever the fuel.
\<close>

theorem includeDirective_baseDir_irrelevant:
  "includeDirective fuel P contents promptFilePath baseDir1
     = includeDirective fuel P contents promptFilePath baseDir2"
  unfolding includeDirective_def by (rule expand_baseDir)

theorem includeDirective_baseDir_irrelevant_witness:
  "includeDirective 2 (flat_fs [(''/w/a'', ''A'')]) ''see codespin:include:a'' None
     (Some ''/elsewhere'') = Some (Returned ''see A'')"
proof -
  have "includeDirective 2 (flat_fs [(''/w/a'', ''A'')]) ''see codespin:include:a'' None None
          = Some (Returned ''see A'')" by code_simp
  with includeDirective_baseDir_irrelevant
         [of 2 "flat_fs [(''/w/a'', ''A'')]" "''see codespin:include:a''" None
             "Some ''/elsewhere''" None]
  show ?thesis by simp
qed

subsection \<open>Texts with several directives\<close>

text \<open>
  The pattern object keeps its \<open>lastIndex\<close> from one \<open>exec\<close> to the next, while the
  loop body replaces \<open>contents\<close> by a string of another length. After an included text
  shorter than its directive, the next search starts beyond the place where the
  replacement ended, and a directive in between is never seen.
\<close>

text \<open>
  Claim C2, on the text \<open>codespin:include:a codespin:include:b\<close> with the files
  \<open>a\<close> = \<open>A\<close> and \<open>b\<close> = \<open>B\<close>: the first directive is replaced by \<open>A\<close>, the second
  one is left in the result as it stands, for any amount of fuel from 3 on. Replacing
  each occurrence by its file would give \<open>A B\<close>.
\<close>

theorem includeDirective_skips_second_directive:
  "includeDirective (3 + k) (flat_fs [(''/w/a'', ''A''), (''/w/b'', ''B'')])
     ''codespin:include:a codespin:include:b'' None None
   = Some (Returned ''A codespin:include:b'')"
proof -
  have "expand 3 (flat_fs [(''/w/a'', ''A''), (''/w/b'', ''B'')]) None [] 0
          ''codespin:include:a codespin:include:b''
        = Some (Returned ''A codespin:include:b'')" by code_simp
  from expand_mono [OF this, of "3 + k"] show ?thesis
    by (simp add: includeDirective_def)
qed

text \<open>
  Claim C3, on the text \<open>codespin:include:head codespin:include:tail\<close> with the files
  \<open>head\<close> = \<open>Hi\<close> and \<open>tail\<close> = \<open>Bye\<close>, an include graph without a cycle: the result
  still holds a directive, and expanding the result once more changes it.
\<close>

theorem includeDirective_not_idempotent:
  "includeDirective (3 + k) (flat_fs [(''/w/head'', ''Hi''), (''/w/tail'', ''Bye'')])
     ''codespin:include:head codespin:include:tail'' None None
   = Some (Returned ''Hi codespin:include:tail'')
   \<and> includeDirective (3 + k) (flat_fs [(''/w/head'', ''Hi''), (''/w/tail'', ''Bye'')])
       ''Hi codespin:include:tail'' None None
     = Some (Returned ''Hi Bye'')"
proof -
  have "expand 3 (flat_fs [(''/w/head'', ''Hi''), (''/w/tail'', ''Bye'')]) None [] 0
          ''codespin:include:head codespin:include:tail''
        = Some (Returned ''Hi codespin:include:tail'')" by code_simp
  from expand_mono [OF this, of "3 + k"]
  have 1: "includeDirective (3 + k) (flat_fs [(''/w/head'', ''Hi''), (''/w/tail'', ''Bye'')])
     ''codespin:include:head codespin:include:tail'' None None
   = Some (Returned ''Hi codespin:include:tail'')"
    by (simp add: includeDirective_def)
  have "expand 3 (flat_fs [(''/w/head'', ''Hi''), (''/w/tail'', ''Bye'')]) None [] 0
          ''Hi codespin:include:tail''
        = Some (Returned ''Hi Bye'')" by code_simp
  from expand_mono [OF this, of "3 + k"]
  have 2: "includeDirective (3 + k) (flat_fs [(''/w/head'', ''Hi''), (''/w/tail'', ''Bye'')])
       ''Hi codespin:include:tail'' None None
     = Some (Returned ''Hi Bye'')"
    by (simp add: includeDirective_def)
  from 1 2 show ?thesis by blast
qed

text \<open>
  Claim C8, on the text \<open>codespin:include:a codespin:include:missing\<close> where the file
  \<open>a\<close> = \<open>A\<close> exists and the file \<open>missing\<close> cannot be read: the expansion does not
  fail; it returns the text with the first directive expanded and the second one left.
  (When the loop does reach a directive whose file cannot be read, the call fails as
  \<open>expand_read_failure\<close> and \<open>expand_nested_failure\<close> say.)
\<close>

theorem includeDirective_misses_unreadable_file:
  "readFile (flat_fs [(''/w/a'', ''A'')]) ''/w/missing''
     = Thrown ''ENOENT: no such file or directory, open /w/missing''
   \<and> includeDirective (3 + k) (flat_fs [(''/w/a'', ''A'')])
       ''codespin:include:a codespin:include:missing'' None None
     = Some (Returned ''A codespin:include:missing'')"
proof -
  have 1: "readFile (flat_fs [(''/w/a'', ''A'')]) ''/w/missing''
     = Thrown ''ENOENT: no such file or directory, open /w/missing''" by code_simp
  have "expand 3 (flat_fs [(''/w/a'', ''A'')]) None [] 0
          ''codespin:include:a codespin:include:missing''
        = Some (Returned ''A codespin:include:missing'')" by code_simp
  from expand_mono [OF this, of "3 + k"]
  have 2: "includeDirective (3 + k) (flat_fs [(''/w/a'', ''A'')])
       ''codespin:include:a codespin:include:missing'' None None
     = Some (Returned ''A codespin:include:missing'')"
    by (simp add: includeDirective_def)
  from 1 2 show ?thesis by blast
qed

section \<open>Properties of the completion client\<close>

text \<open>With a credential, exactly one request is issued, and it is \<open>the_request\<close>.\<close>

lemma completion_issues_one_request:
  assumes "OPENAI_API_KEY env = Some key" and "key \<noteq> []"
  shows "filter is_fetch (fst (completion env prompt options))
           = [Fetch (the_request env prompt options key)]"
  using assms
  by (simp add: completion_def completion_try_def Let_def
           split: option.splits outcome.splits list.splits prod.splits)

text \<open>
  Claim C1. When the provider's payload has no error field, the first choice decides:
  a finish reason other than \<open>stop\<close> gives \<open>Err\<close> with that finish reason as its code
  (and as its message), whatever the content; \<open>stop\<close> gives \<open>Ok\<close> with the content as
  it is. And the client returns \<open>Ok\<close> in no other case.
\<close>

theorem completion_finish_reason:
  "(OPENAI_API_KEY env = Some key \<and> key \<noteq> []
      \<and> fetch env (the_request env prompt options key) = Returned resp
      \<and> json resp = Returned data \<and> error data = None \<and> choices data = c # cs
    \<longrightarrow> snd (completion env prompt options) =
          (if finish_reason c = ''stop'' then Returned (Ok (content (message c)))
           else Returned (Err (finish_reason c) (finish_reason c))))
   \<and> (\<forall>text. snd (completion env prompt options) = Returned (Ok text)
        \<longrightarrow> (\<exists>key resp data c cs.
               OPENAI_API_KEY env = Some key
             \<and> fetch env (the_request env prompt options key) = Returned resp
             \<and> json resp = Returned data \<and> error data = None \<and> choices data = c # cs
             \<and> finish_reason c = ''stop'' \<and> text = content (message c)))"
  by (auto simp: completion_def completion_try_def Let_def
           split: option.splits outcome.splits list.splits if_splits prod.splits)

theorem completion_finish_reason_witness:
  "snd (completion (test_env (Some ''sk-1'') (answering ''partial answ'' ''length'')) ''hi'' plain_options)
     = Returned (Err ''length'' ''length'')
   \<and> snd (completion (test_env (Some ''sk-1'') (answering ''full answer'' ''stop'')) ''hi'' plain_options)
     = Returned (Ok ''full answer'')"
  using completion_finish_reason [of "test_env (Some ''sk-1'') (answering ''partial answ'' ''length'')" "''sk-1''" "''hi''" plain_options
     "\<lparr> json = Returned \<lparr> error = None,
        choices = [\<lparr> message = \<lparr> content = ''partial answ'' \<rparr>, finish_reason = ''length'' \<rparr>] \<rparr> \<rparr>"
     "\<lparr> error = None,
        choices = [\<lparr> message = \<lparr> content = ''partial answ'' \<rparr>, finish_reason = ''length'' \<rparr>] \<rparr>"
     "\<lparr> message = \<lparr> content = ''partial answ'' \<rparr>, finish_reason = ''length'' \<rparr>" "[]"]
    completion_finish_reason [of "test_env (Some ''sk-1'') (answering ''full answer'' ''stop'')" "''sk-1''" "''hi''" plain_options
     "\<lparr> json = Returned \<lparr> error = None,
        choices = [\<lparr> message = \<lparr> content = ''full answer'' \<rparr>, finish_reason = ''stop'' \<rparr>] \<rparr> \<rparr>"
     "\<lparr> error = None,
        choices = [\<lparr> message = \<lparr> content = ''full answer'' \<rparr>, finish_reason = ''stop'' \<rparr>] \<rparr>"
     "\<lparr> message = \<lparr> content = ''full answer'' \<rparr>, finish_reason = ''stop'' \<rparr>" "[]"]
  by (simp add: test_env_def answering_def)

text \<open>
  Claim C4. The promise of the client always resolves and never rejects. A failure of
  \<open>fetch\<close> or of \<open>json()\<close> is returned as \<open>Err\<close> with the code \<open>fetch_error\<close> and
  the message of the cause (a fixed text when the cause has an empty message), and so
  is a payload without a first choice. A missing credential, a provider error and a
  finish reason other than \<open>stop\<close> are returned as \<open>Err\<close> values too.
\<close>

theorem completion_never_throws:
  "(\<exists>r. snd (completion env prompt options) = Returned r)
   \<and> (\<forall>key err. OPENAI_API_KEY env = Some key \<and> key \<noteq> []
          \<and> fetch env (the_request env prompt options key) = Thrown err
        \<longrightarrow> snd (completion env prompt options) =
              Returned (Err ''fetch_error''
                (if err = [] then ''An error occurred while fetching the completion.''
                 else err)))
   \<and> (\<forall>key resp err. OPENAI_API_KEY env = Some key \<and> key \<noteq> []
          \<and> fetch env (the_request env prompt options key) = Returned resp
          \<and> json resp = Thrown err
        \<longrightarrow> snd (completion env prompt options) =
              Returned (Err ''fetch_error''
                (if err = [] then ''An error occurred while fetching the completion.''
                 else err)))
   \<and> (\<forall>key resp data. OPENAI_API_KEY env = Some key \<and> key \<noteq> []
          \<and> fetch env (the_request env prompt options key) = Returned resp
          \<and> json resp = Returned data \<and> error data = None \<and> choices data = []
        \<longrightarrow> snd (completion env prompt options) =
              Returned (Err ''fetch_error'' no_first_choice))
   \<and> (OPENAI_API_KEY env = None \<or> OPENAI_API_KEY env = Some []
        \<longrightarrow> snd (completion env prompt options) =
              Returned (Err ''missing_api_key''
                ''OPENAI_API_KEY is not set in the environment variables.''))
   \<and> (\<forall>key resp data e. OPENAI_API_KEY env = Some key \<and> key \<noteq> []
          \<and> fetch env (the_request env prompt options key) = Returned resp
          \<and> json resp = Returned data \<and> error data = Some e
        \<longrightarrow> snd (completion env prompt options) = Returned (Err (code e) (error_message e)))
   \<and> (\<forall>key resp data c cs. OPENAI_API_KEY env = Some key \<and> key \<noteq> []
          \<and> fetch env (the_request env prompt options key) = Returned resp
          \<and> json resp = Returned data \<and> error data = None \<and> choices data = c # cs
          \<and> finish_reason c \<noteq> ''stop''
        \<longrightarrow> snd (completion env prompt options) =
              Returned (Err (finish_reason c) (finish_reason c)))"
  by (auto simp: completion_def completion_try_def Let_def no_first_choice_def
           split: option.splits outcome.splits list.splits prod.splits)

theorem completion_never_throws_witness:
  "snd (completion (test_env (Some ''sk-1'') (\<lambda>req. Thrown ''fetch failed'')) ''hi'' plain_options)
     = Returned (Err ''fetch_error'' ''fetch failed'')
   \<and> snd (completion (test_env (Some ''sk-1'') (\<lambda>req. Thrown [])) ''hi'' plain_options)
     = Returned (Err ''fetch_error'' ''An error occurred while fetching the completion.'')"
  using completion_never_throws [of "test_env (Some ''sk-1'') (\<lambda>req. Thrown ''fetch failed'')" "''hi''" plain_options]
    completion_never_throws [of "test_env (Some ''sk-1'') (\<lambda>req. Thrown [])" "''hi''" plain_options]
  by (simp add: test_env_def)

text \<open>
  Claim C5. Without a credential (the variable unset or empty) the client returns
  \<open>Err\<close> with the code \<open>missing_api_key\<close>, and no request is among its events.
\<close>

theorem completion_missing_api_key:
  assumes "OPENAI_API_KEY env = None \<or> OPENAI_API_KEY env = Some []"
  shows "snd (completion env prompt options) =
           Returned (Err ''missing_api_key''
             ''OPENAI_API_KEY is not set in the environment variables.'')
         \<and> filter is_fetch (fst (completion env prompt options)) = []"
  using assms by (auto simp: completion_def Let_def)

theorem completion_missing_api_key_witness:
  "snd (completion (test_env None (answering ''full answer'' ''stop'')) ''hi'' plain_options)
     = Returned (Err ''missing_api_key''
         ''OPENAI_API_KEY is not set in the environment variables.'')
   \<and> filter is_fetch
        (fst (completion (test_env None (answering ''full answer'' ''stop'')) ''hi'' plain_options))
     = []
   \<and> filter is_fetch
        (fst (completion (test_env (Some []) (answering ''full answer'' ''stop'')) ''hi'' plain_options))
     = []"
  using completion_missing_api_key [of "test_env None (answering ''full answer'' ''stop'')" "''hi''" plain_options]
    completion_missing_api_key [of "test_env (Some []) (answering ''full answer'' ''stop'')" "''hi''" plain_options]
  by (simp add: test_env_def)

text \<open>
  Claim C6. With \<open>maxTokens\<close> unset the token budget is 4000 minus the length of the
  prompt: as computed, as put into the request, and in every request the client
  issues. For a prompt of length 500 it is 3500.
\<close>

theorem completion_default_budget:
  assumes "maxTokens options = None"
  shows "effective_maxTokens prompt options = 4000 - int (length prompt)
         \<and> max_tokens (body (the_request env prompt options key)) = 4000 - int (length prompt)
         \<and> (\<forall>req. Fetch req \<in> set (fst (completion env prompt options))
              \<longrightarrow> max_tokens (body req) = 4000 - int (length prompt))
         \<and> (length prompt = 500 \<longrightarrow> effective_maxTokens prompt options = 3500)"
  using assms
  by (auto simp: effective_maxTokens_def the_request_def completion_def completion_try_def Let_def
           split: option.splits outcome.splits list.splits prod.splits if_splits)

theorem completion_default_budget_witness:
  "effective_maxTokens (replicate 500 (CHR ''p'')) plain_options = 3500
   \<and> max_tokens (body (the_request (test_env (Some ''sk-1'') (answering ''ok'' ''stop''))
        (replicate 500 (CHR ''p'')) plain_options ''sk-1'')) = 3500"
  using completion_default_budget [of plain_options "replicate 500 (CHR ''p'')"
          "test_env (Some ''sk-1'') (answering ''ok'' ''stop'')" "''sk-1''"]
  by (simp add: plain_options_def)

text \<open>
  Claim C10. The defaults apply to falsy values as well: a budget of 0 is replaced by
  4000 minus the length of the prompt, an empty model name by \<open>gpt-3.5-turbo\<close>.
\<close>

theorem completion_falsy_defaults:
  "(maxTokens options = Some 0
      \<longrightarrow> effective_maxTokens prompt options = 4000 - int (length prompt)
        \<and> max_tokens (body (the_request env prompt options key)) = 4000 - int (length prompt))
   \<and> (model options = Some []
      \<longrightarrow> effective_model options = ''gpt-3.5-turbo''
        \<and> body_model (body (the_request env prompt options key)) = ''gpt-3.5-turbo'')"
  by (simp add: effective_maxTokens_def effective_model_def the_request_def)

theorem completion_falsy_defaults_witness:
  "effective_maxTokens ''hello'' \<lparr> model = Some [], maxTokens = Some 0, debug = None \<rparr> = 3995
   \<and> effective_model \<lparr> model = Some [], maxTokens = Some 0, debug = None \<rparr> = ''gpt-3.5-turbo''"
  using completion_falsy_defaults [of "\<lparr> model = Some [], maxTokens = Some 0, debug = None \<rparr>" "''hello''"]
  by simp

end
